theory Spec2Isabelle
  imports Main "HOL-Library.Word"
begin

section \<open>The model lister \<^verbatim>\<open>check_models.py\<close>\<close>

text \<open>
  The script under verification, in full:
  \<^verbatim>\<open>
  import urllib.request, json
  try:
      url = "https://generativelanguage.googleapis.com/v1beta/models?key="
      resp = urllib.request.urlopen(url).read().decode()
      data = json.loads(resp)
      for m in data.get('models', []):
          print(m['name'])
  except Exception as e:
      print(e)
  \<close>
  The embedding follows the script statement by statement. What the script calls in
  the standard library (\<^verbatim>\<open>urlopen(..).read()\<close>, \<^verbatim>\<open>bytes.decode\<close>,
  \<^verbatim>\<open>json.loads\<close>, \<^verbatim>\<open>repr\<close> of a string and of a float) is not part of it and is
  taken as a parameter; what the language itself does with the value that
  \<^verbatim>\<open>json.loads\<close> returns (\<^verbatim>\<open>.get\<close>, iteration, subscripting, \<^verbatim>\<open>str\<close>,
  the class test of \<^verbatim>\<open>except Exception\<close>) is written out.
\<close>

subsection \<open>Values\<close>

text \<open>An IEEE double as \<^verbatim>\<open>json.loads\<close> produces it; only ever rendered, never computed with.\<close>

typedecl pyfloat

text \<open>
  The values \<^verbatim>\<open>json.loads\<close> can return. A \<^verbatim>\<open>dict\<close> is the list of its items in
  insertion order (its keys are pairwise distinct); a \<^verbatim>\<open>str\<close> is a \<^typ>\<open>string\<close>.
\<close>

datatype json =
    JObject "(string \<times> json) list"
  | JArray "json list"
  | JString string
  | JInt int
  | JFloat pyfloat
  | JBool bool
  | JNull

type_synonym bytes = "8 word list"

subsection \<open>Exceptions\<close>

text \<open>
  The classes of the exceptions that can reach the handler. \<open>HTTPError\<close> is what
  \<^verbatim>\<open>urlopen\<close> raises for an error status, \<open>URLError\<close> for a connection or name
  resolution failure, \<open>OtherException\<close> stands for any further subclass of
  \<^verbatim>\<open>Exception\<close>, and \<open>KeyboardInterrupt\<close> derives from \<^verbatim>\<open>BaseException\<close> only.
\<close>

datatype exn_class =
    URLError | HTTPError | UnicodeDecodeError | JSONDecodeError
  | KeyError | AttributeError | TypeError | OtherException | KeyboardInterrupt

text \<open>A raised exception: its class and \<^verbatim>\<open>str(e)\<close>, the text \<^verbatim>\<open>print(e)\<close> writes.\<close>

datatype exn = Exn (cls: exn_class) (msg: string)

text \<open>\<^verbatim>\<open>isinstance(e, Exception)\<close>, the test of the clause \<^verbatim>\<open>except Exception\<close>.\<close>

fun isinstance_Exception :: "exn \<Rightarrow> bool" where
  "isinstance_Exception (Exn KeyboardInterrupt _) = False"
| "isinstance_Exception (Exn _ _) = True"

subsection \<open>The library the script calls\<close>

record lib =
  decode :: "bytes \<Rightarrow> exn + string"
  loads :: "string \<Rightarrow> exn + json"
  repr_str :: "string \<Rightarrow> string"
  repr_float :: "pyfloat \<Rightarrow> string"

text \<open>\<^verbatim>\<open>urllib.request.urlopen(u).read()\<close>: the body served for \<open>u\<close>, or the exception raised.\<close>

type_synonym net = "string \<Rightarrow> exn + bytes"

subsection \<open>Built-in operations on values\<close>

text \<open>\<^verbatim>\<open>type(v).__name__\<close>, as it appears in the interpreter's error messages.\<close>

fun type_name :: "json \<Rightarrow> string" where
  "type_name (JObject _) = ''dict''"
| "type_name (JArray _) = ''list''"
| "type_name (JString _) = ''str''"
| "type_name (JInt _) = ''int''"
| "type_name (JFloat _) = ''float''"
| "type_name (JBool _) = ''bool''"
| "type_name JNull = ''NoneType''"

text \<open>A word between apostrophes, as error messages show type and attribute names.\<close>

definition quoted :: "string \<Rightarrow> string" where
  "quoted s = [CHR 0x27] @ s @ [CHR 0x27]"

text \<open>\<^verbatim>\<open>data.get(k, d)\<close>: only a \<^verbatim>\<open>dict\<close> has the method.\<close>

fun dot_get :: "json \<Rightarrow> string \<Rightarrow> json \<Rightarrow> exn + json" where
  "dot_get (JObject kvs) k d = Inr (case map_of kvs k of None \<Rightarrow> d | Some v \<Rightarrow> v)"
| "dot_get v k d =
     Inl (Exn AttributeError (quoted (type_name v) @ '' object has no attribute '' @ quoted ''get''))"

text \<open>
  The elements a \<^verbatim>\<open>for\<close> loop visits: those of a list, the keys of a \<^verbatim>\<open>dict\<close>,
  the characters of a \<^verbatim>\<open>str\<close>; nothing else is iterable.
\<close>

fun iter :: "json \<Rightarrow> exn + json list" where
  "iter (JArray xs) = Inr xs"
| "iter (JObject kvs) = Inr (map (\<lambda>kv. JString (fst kv)) kvs)"
| "iter (JString s) = Inr (map (\<lambda>c. JString [c]) s)"
| "iter v = Inl (Exn TypeError (quoted (type_name v) @ '' object is not iterable''))"

text \<open>\<^verbatim>\<open>m[k]\<close> for a \<^verbatim>\<open>str\<close> key \<open>k\<close>; the text of a \<^verbatim>\<open>KeyError\<close> is \<^verbatim>\<open>repr(k)\<close>.\<close>

fun subscript :: "lib \<Rightarrow> json \<Rightarrow> string \<Rightarrow> exn + json" where
  "subscript L (JObject kvs) k =
     (case map_of kvs k of None \<Rightarrow> Inl (Exn KeyError (repr_str L k)) | Some v \<Rightarrow> Inr v)"
| "subscript L (JArray _) k =
     Inl (Exn TypeError ''list indices must be integers or slices, not str'')"
| "subscript L (JString _) k =
     Inl (Exn TypeError (''string indices must be integers, not '' @ quoted ''str''))"
| "subscript L v k =
     Inl (Exn TypeError (quoted (type_name v) @ '' object is not subscriptable''))"

text \<open>Decimal rendering of an integer, \<^verbatim>\<open>str(n)\<close>.\<close>

function str_nat :: "nat \<Rightarrow> string" where
  "str_nat n = (if n < 10 then [''0123456789'' ! n]
                else str_nat (n div 10) @ [''0123456789'' ! (n mod 10)])"
  by pat_completeness auto
termination
  by (relation "measure id") auto

definition str_int :: "int \<Rightarrow> string" where
  "str_int i = (if i < 0 then CHR ''-'' # str_nat (nat (- i)) else str_nat (nat i))"

text \<open>\<^verbatim>\<open>', '.join(xs)\<close>\<close>

fun join_comma :: "string list \<Rightarrow> string" where
  "join_comma [] = []"
| "join_comma [x] = x"
| "join_comma (x # y # ys) = x @ '', '' @ join_comma (y # ys)"

text \<open>\<^verbatim>\<open>repr(v)\<close>: containers render their elements with \<^verbatim>\<open>repr\<close>.\<close>

fun py_repr :: "lib \<Rightarrow> json \<Rightarrow> string" where
  "py_repr L (JString s) = repr_str L s"
| "py_repr L (JInt i) = str_int i"
| "py_repr L (JFloat f) = repr_float L f"
| "py_repr L (JBool b) = (if b then ''True'' else ''False'')"
| "py_repr L JNull = ''None''"
| "py_repr L (JArray xs) = ''['' @ join_comma (map (py_repr L) xs) @ '']''"
| "py_repr L (JObject kvs) =
     ''{'' @ join_comma (map (\<lambda>kv. repr_str L (fst kv) @ '': '' @ py_repr L (snd kv)) kvs) @ ''}''"

text \<open>\<^verbatim>\<open>str(v)\<close>, what \<^verbatim>\<open>print(v)\<close> writes: a \<^verbatim>\<open>str\<close> is written as it is.\<close>

fun py_str :: "lib \<Rightarrow> json \<Rightarrow> string" where
  "py_str L (JString s) = s"
| "py_str L v = py_repr L v"

subsection \<open>The script\<close>

text \<open>What the run has done to the outside: the URLs requested and the lines printed,
  one entry for each call of \<^verbatim>\<open>print\<close>, oldest first. A call of \<^verbatim>\<open>print\<close>
  writes its text and a newline and is taken to succeed.\<close>

record world =
  requests :: "string list"
  stdout :: "string list"

definition print_line :: "string \<Rightarrow> world \<Rightarrow> world" where
  "print_line s w = w\<lparr>stdout := stdout w @ [s]\<rparr>"

definition url :: string where
  "url = ''https://generativelanguage.googleapis.com/v1beta/models?key=''"

text \<open>
  The loop \<^verbatim>\<open>for m in ..: print(m['name'])\<close> over the elements still to visit. The
  result is the exception that left the loop, if any, and the world after it.
\<close>

fun for_loop :: "lib \<Rightarrow> json list \<Rightarrow> world \<Rightarrow> exn option \<times> world" where
  "for_loop L [] w = (None, w)"
| "for_loop L (m # ms) w =
     (case subscript L m ''name'' of
        Inl e \<Rightarrow> (Some e, w)
      | Inr v \<Rightarrow> for_loop L ms (print_line (py_str L v) w))"

text \<open>The body of the \<^verbatim>\<open>try\<close> statement.\<close>

definition try_body :: "lib \<Rightarrow> net \<Rightarrow> world \<Rightarrow> exn option \<times> world" where
  "try_body L N w =
     (let w' = w\<lparr>requests := requests w @ [url]\<rparr> in
      case N url of
        Inl e \<Rightarrow> (Some e, w')
      | Inr body \<Rightarrow>
     (case decode L body of
        Inl e \<Rightarrow> (Some e, w')
      | Inr resp \<Rightarrow>
     (case loads L resp of
        Inl e \<Rightarrow> (Some e, w')
      | Inr data \<Rightarrow>
     (case dot_get data ''models'' (JArray []) of
        Inl e \<Rightarrow> (Some e, w')
      | Inr ms \<Rightarrow>
     (case iter ms of
        Inl e \<Rightarrow> (Some e, w')
      | Inr items \<Rightarrow> for_loop L items w')))))"

text \<open>
  The whole script, started with nothing requested and nothing printed. The first
  component of the result is the exception that leaves the script uncaught, if any.
\<close>

definition start :: world where
  "start = \<lparr>requests = [], stdout = []\<rparr>"

definition check_models :: "lib \<Rightarrow> net \<Rightarrow> exn option \<times> world" where
  "check_models L N =
     (case try_body L N start of
        (None, w) \<Rightarrow> (None, w)
      | (Some e, w) \<Rightarrow>
          if isinstance_Exception e then (None, print_line (msg e) w) else (Some e, w))"



definition requested :: "exn option \<times> world \<Rightarrow> string list" where
  "requested r = requests (snd r)"

subsection \<open>Vocabulary of the specification\<close>






text \<open>The endpoint and the key the specification builds the URL from.\<close>

definition spec_base_endpoint :: string where
  "spec_base_endpoint = ''https://generativelanguage.googleapis.com/v1beta/models?key=''"

definition spec_key :: string where
  "spec_key = []"

subsection \<open>Example environments\<close>

text \<open>A server that answers every request with the body \<open>b\<close>, and one that cannot be reached.\<close>

definition serving :: "bytes \<Rightarrow> net" where
  "serving b u = Inr b"


text \<open>The bytes of an ASCII text.\<close>


definition ascii :: "string \<Rightarrow> bytes" where
  "ascii s = map (\<lambda>c. of_nat (of_char c)) s"

text \<open>
  A library restricted to one response: the text \<open>t\<close> is decoded from its ASCII bytes and
  is parsed to \<open>r\<close>, a string without escapes is written between apostrophes by
  \<^verbatim>\<open>repr\<close>. Other bytes and texts are rejected.
\<close>

definition lib_for :: "string \<Rightarrow> exn + json \<Rightarrow> lib" where
  "lib_for t r =
     \<lparr> decode = (\<lambda>b. if b = ascii t then Inr t
                       else Inl (Exn UnicodeDecodeError ''invalid start byte'')),
       loads = (\<lambda>x. if x = t then r
                      else Inl (Exn JSONDecodeError ''Expecting value: line 1 column 1 (char 0)'')),
       repr_str = quoted,
       repr_float = (\<lambda>f. ''nan'') \<rparr>"

text \<open>The run in which the server answers with the text \<open>t\<close>, which parses to \<open>d\<close>.\<close>

definition run_on :: "string \<Rightarrow> json \<Rightarrow> exn option \<times> world" where
  "run_on t d = check_models (lib_for t (Inr d)) (serving (ascii t))"


definition no_key_text :: string where
  \<open>no_key_text = ''{}''\<close>

definition empty_list_text :: string where
  \<open>empty_list_text = ''{"models": []}''\<close>













section \<open>Properties of the operations\<close>




lemma try_body_parsed:
  assumes "N url = Inr body" "decode L body = Inr resp" "loads L resp = Inr data"
  shows "try_body L N start =
     (case dot_get data ''models'' (JArray []) of
        Inl e \<Rightarrow> (Some e, \<lparr>requests = [url], stdout = []\<rparr>)
      | Inr ms \<Rightarrow>
     (case iter ms of
        Inl e \<Rightarrow> (Some e, \<lparr>requests = [url], stdout = []\<rparr>)
      | Inr items \<Rightarrow> for_loop L items \<lparr>requests = [url], stdout = []\<rparr>))"
  using assms by (simp add: try_body_def start_def Let_def)






lemma for_loop_requests: "requests (snd (for_loop L ms w)) = requests w"
  by (induction ms arbitrary: w) (auto split: sum.splits simp: print_line_def)








lemma lib_for_simps:
  "decode (lib_for t r) (ascii t) = Inr t"
  "loads (lib_for t r) t = r"
  "repr_str (lib_for t r) = quoted"
  by (simp_all add: lib_for_def)

lemma serving_simp: "serving b u = Inr b"
  by (simp add: serving_def)

section \<open>The claims\<close>

text \<open>
  In every statement below \<open>L\<close> is the library and \<open>N\<close> the network of the run,
  \<open>body\<close> the bytes served for \<^const>\<open>url\<close>, \<open>resp\<close> their decoded text and
  \<open>data\<close> the value \<^verbatim>\<open>json.loads\<close> returns for it. The result of
  \<^const>\<open>check_models\<close> is the uncaught exception (\<open>None\<close> when the script
  runs to its end) and the world it leaves: the URLs requested and the lines printed,
  one for each call of \<^verbatim>\<open>print\<close>.
\<close>



text \<open>
  \<^bold>\<open>C2.\<close> When the response parses to an object that has no \<^verbatim>\<open>"models"\<close> field, and
  likewise when that field is the empty list, the script prints nothing and raises
  nothing: the absent field is read as the empty list.
\<close>

theorem no_models_prints_nothing:
  assumes "N url = Inr body" "decode L body = Inr resp" "loads L resp = Inr (JObject kvs)"
    and "map_of kvs ''models'' = None \<or> map_of kvs ''models'' = Some (JArray [])"
  shows "check_models L N = (None, \<lparr>requests = [url], stdout = []\<rparr>)"
  using assms(4)
  by (auto simp: check_models_def try_body_parsed [where N=N and L=L, OF assms(1-3)])

theorem no_models_prints_nothing_witness:
  "run_on no_key_text (JObject []) = (None, \<lparr>requests = [url], stdout = []\<rparr>) \<and>
   run_on empty_list_text (JObject [(''models'', JArray [])])
     = (None, \<lparr>requests = [url], stdout = []\<rparr>)"
  using no_models_prints_nothing [where N = "serving (ascii no_key_text)"
      and L = "lib_for no_key_text (Inr (JObject []))"
      and body = "ascii no_key_text" and resp = no_key_text and kvs = "[]"]
    no_models_prints_nothing [where N = "serving (ascii empty_list_text)"
      and L = "lib_for empty_list_text (Inr (JObject [(''models'', JArray [])]))"
      and body = "ascii empty_list_text" and resp = empty_list_text
      and kvs = "[(''models'', JArray [])]"]
  by (simp add: run_on_def lib_for_simps serving_simp)







text \<open>
  \<^bold>\<open>C6.\<close> The URL requested is the fixed endpoint followed by the key, and the key is the
  empty string, so the one request of a run goes to exactly the endpoint string. (The
  script writes the URL as one literal; appending the empty key leaves it as it is.)
\<close>

theorem request_url:
  "url = spec_base_endpoint @ spec_key \<and> spec_key = [] \<and> url = spec_base_endpoint \<and>
   requested (check_models L N) = [url]"
proof -
  have "requests (snd (try_body L N start)) = [url]"
    by (simp add: try_body_def start_def Let_def for_loop_requests split: sum.splits)
  then have "requested (check_models L N) = [url]"
    by (cases "try_body L N start")
       (auto simp: check_models_def requested_def print_line_def split: option.splits)
  then show ?thesis
    by (simp add: url_def spec_base_endpoint_def spec_key_def)
qed










end
